theory Spec2Isabelle
  imports Main "HOL-Library.Word"
begin

unbundle bit_operations_syntax

section \<open>Data model of hanvon-libusb.c\<close>

type_synonym u8 = "8 word"
type_synonym u16 = "16 word"

subsection \<open>Constants\<close>

definition VENDOR_ID_HANVON :: u16 where "VENDOR_ID_HANVON = 0x0b57"
definition PRODUCT_ID_AM3M :: u16 where "PRODUCT_ID_AM3M = 0x8528"
definition PRODUCT_ID_AM0806 :: u16 where "PRODUCT_ID_AM0806 = 0x8502"
definition PRODUCT_ID_AM0605 :: u16 where "PRODUCT_ID_AM0605 = 0x8503"
definition PRODUCT_ID_AM1107 :: u16 where "PRODUCT_ID_AM1107 = 0x8505"
definition PRODUCT_ID_AM1209 :: u16 where "PRODUCT_ID_AM1209 = 0x8501"
definition PRODUCT_ID_RL0604 :: u16 where "PRODUCT_ID_RL0604 = 0x851f"
definition PRODUCT_ID_RL0504 :: u16 where "PRODUCT_ID_RL0504 = 0x851d"
definition PRODUCT_ID_GP0806 :: u16 where "PRODUCT_ID_GP0806 = 0x8039"
definition PRODUCT_ID_GP0806B :: u16 where "PRODUCT_ID_GP0806B = 0x8511"
definition PRODUCT_ID_GP0605 :: u16 where "PRODUCT_ID_GP0605 = 0x8512"
definition PRODUCT_ID_GP0605A :: u16 where "PRODUCT_ID_GP0605A = 0x803a"
definition PRODUCT_ID_GP0504 :: u16 where "PRODUCT_ID_GP0504 = 0x8037"
definition PRODUCT_ID_NXS1513 :: u16 where "PRODUCT_ID_NXS1513 = 0x8030"
definition PRODUCT_ID_GP0906 :: u16 where "PRODUCT_ID_GP0906 = 0x8521"
definition PRODUCT_ID_APPIV0906 :: u16 where "PRODUCT_ID_APPIV0906 = 0x8532"

definition AM_PACKET_LEN :: int where "AM_PACKET_LEN = 10"
definition AM_RESOLUTION :: int where "AM_RESOLUTION = 40"
definition AM_MAX_ABS_X :: int where "AM_MAX_ABS_X = 0x27DE"
definition AM_MAX_ABS_Y :: int where "AM_MAX_ABS_Y = 0x1CFE"
definition AM_MAX_TILT_X :: int where "AM_MAX_TILT_X = 0x3F"
definition AM_MAX_TILT_Y :: int where "AM_MAX_TILT_Y = 0x7F"
definition AM_MAX_PRESSURE :: int where "AM_MAX_PRESSURE = 0x400"
definition APPIV_MAX_ABS_X :: int where "APPIV_MAX_ABS_X = 0x5750"
definition APPIV_MAX_ABS_Y :: int where "APPIV_MAX_ABS_Y = 0x3692"

definition BUTTON_EVENT_GP :: u8 where "BUTTON_EVENT_GP = 0x01"
definition PEN_EVENT :: u8 where "PEN_EVENT = 0x02"
definition BUTTON_EVENT_0906 :: u8 where "BUTTON_EVENT_0906 = 0x0C"

subsection \<open>Input events written to the uinput device\<close>

text \<open>
  Every \<^verbatim>\<open>libevdev_uinput_write_event(ud, type, code, value)\<close> of the source is one
  \<open>Event type code value\<close>.  The event types and codes are the names of the Linux input
  headers that the source uses.
\<close>

datatype ev_type = EV_SYN | EV_KEY | EV_REL | EV_ABS

datatype ev_code =
    SYN_REPORT
  | BTN_0 | BTN_1 | BTN_2 | BTN_3 | BTN_4 | BTN_5 | BTN_6 | BTN_7 | BTN_MIDDLE
  | BTN_TOOL_PEN | BTN_TOOL_RUBBER | BTN_TOUCH | BTN_STYLUS | BTN_STYLUS2
  | ABS_X | ABS_Y | ABS_PRESSURE | ABS_TILT_X | ABS_TILT_Y
  | REL_WHEEL

datatype input_event = Event ev_type ev_code int

definition lbuttons :: "ev_code list" where "lbuttons = [BTN_0, BTN_1, BTN_2, BTN_3]"
definition rbuttons :: "ev_code list" where "rbuttons = [BTN_4, BTN_5, BTN_6, BTN_7]"

text \<open>The C idiom \<^verbatim>\<open>!!(data & mask)\<close>: 1 if any masked bit is set, 0 otherwise.\<close>

definition flag :: "u8 \<Rightarrow> u8 \<Rightarrow> int" where
  "flag data m = (if data AND m \<noteq> 0 then 1 else 0)"

subsection \<open>Devices, descriptors, evdev and uinput objects\<close>

record device_descriptor =
  idVendor :: u16
  idProduct :: u16
  bcdDevice :: u16

text \<open>A \<^verbatim>\<open>libusb_device*\<close>: its identity and the descriptor the bus reports for it.\<close>

record usb_device =
  dev_id :: nat
  dev_desc :: device_descriptor

text \<open>A \<^verbatim>\<open>libusb_device_handle*\<close> obtained by \<^verbatim>\<open>libusb_open(dev, ...)\<close>.\<close>

datatype dev_handle = Handle usb_device

fun libusb_get_device :: "dev_handle \<Rightarrow> usb_device" where
  "libusb_get_device (Handle d) = d"

record input_absinfo =
  abs_minimum :: int
  abs_maximum :: int
  abs_fuzz :: int
  abs_flat :: int
  abs_resolution :: int

record evdev =
  ev_name :: string
  id_vendor :: u16
  id_product :: u16
  id_version :: u16
  enabled_keys :: "ev_code list"
  enabled_abs :: "(ev_code \<times> input_absinfo) list"
  enabled_rel :: "ev_code list"

text \<open>A managed uinput device, created from an evdev description.\<close>

datatype uinput = Uinput evdev

datatype transfer_status =
    TRANSFER_COMPLETED | TRANSFER_ERROR | TRANSFER_TIMED_OUT | TRANSFER_CANCELLED
  | TRANSFER_STALL | TRANSFER_NO_DEVICE | TRANSFER_OVERFLOW

record transfer =
  tx_dev_handle :: "dev_handle option"
  tx_endpoint :: u8
  buffer :: "u8 list"
  tx_length :: int
  user_data :: "uinput option"
  status :: transfer_status
  actual_length :: int

subsection \<open>Global state\<close>

record globals =
  g_dev_handle :: "dev_handle option"
  g_uidev :: "uinput option"
  g_evdev :: "evdev option"
  g_tx :: "transfer option"
  g_buffer :: "u8 list"
  g_running :: bool
  g_wheel_position :: int

section \<open>Packet decoding\<close>

subsection \<open>report_buttons\<close>

text \<open>
  \<open>report_buttons buttons data wheel\<close> returns the events written and the new value of
  \<^verbatim>\<open>g_wheel_position\<close>.  \<^verbatim>\<open>num_buttons\<close> is the length of the array passed.  The
  C expression \<^verbatim>\<open>0x3f / 2\<close> is an integer division of positive numbers.
\<close>

definition wheel_delta :: "u8 \<Rightarrow> int \<Rightarrow> int" where
  "wheel_delta data wheel =
     (let delta = uint data - wheel in
      if \<bar>delta\<bar> > 0x3f div 2
      then (if delta > 0 then delta - 0x40 else delta + 0x40)
      else delta)"

definition report_buttons :: "ev_code list \<Rightarrow> u8 \<Rightarrow> int \<Rightarrow> input_event list \<times> int" where
  "report_buttons buttons data wheel =
     (if data AND 0xf0 = 0xa0 then
        ((if length buttons > 1 then [Event EV_KEY (buttons ! 1) (flag data 0x02)] else []) @
         (if length buttons > 2 then [Event EV_KEY (buttons ! 2) (flag data 0x04)] else []) @
         (if length buttons > 3 then [Event EV_KEY (buttons ! 3) (flag data 0x08)] else []),
         wheel)
      else if data \<le> 0x3f then
        (let delta = wheel_delta data wheel in
         if delta \<noteq> 0 then ([Event EV_REL REL_WHEEL delta], uint data) else ([], wheel))
      else ([], wheel))"

subsection \<open>callback_default\<close>

text \<open>The diagnostics the callback prints with \<^verbatim>\<open>DEBUG\<close>, one constructor per message.\<close>

datatype diag =
    TransferFailed transfer_status
  | UinputHandleNull
  | EmptyPacket int
  | ButtonEventGPTooShort int
  | PenEventTooShort int
  | ButtonEvent0906TooShort int
  | UnknownMessageType u8
  | ResubmitError int
  | NotResubmitting

definition be16 :: "u8 \<Rightarrow> u8 \<Rightarrow> u16" where
  "be16 hi lo = push_bit 8 (ucast hi) OR ucast lo"

text \<open>The \<^verbatim>\<open>switch(data[0])\<close> of the callback: events written, diagnostics, new wheel position.\<close>

definition decode_switch :: "u8 list \<Rightarrow> int \<Rightarrow> int \<Rightarrow> input_event list \<times> diag list \<times> int" where
  "decode_switch data len wheel =
     (if data ! 0 = BUTTON_EVENT_GP then
        (if len < 5 then ([], [ButtonEventGPTooShort len], wheel)
         else
           (let (ev1, w1) = (if data ! 1 = 0x55 then report_buttons lbuttons (data ! 2) wheel
                             else ([], wheel));
                (ev2, w2) = (if data ! 3 = 0xAA then report_buttons rbuttons (data ! 4) w1
                             else ([], w1))
            in (ev1 @ ev2, [], w2)))
      else if data ! 0 = PEN_EVENT then
        (if len < AM_PACKET_LEN then ([], [PenEventTooShort len], wheel)
         else
           (let tool_type = (if data ! 1 AND 0x20 \<noteq> 0 then BTN_TOOL_RUBBER else BTN_TOOL_PEN);
                near = (data ! 1 AND (0x80 OR 0x10 OR 0x01) \<noteq> 0);
                x_raw = be16 (data ! 2) (data ! 3);
                y_raw = be16 (data ! 4) (data ! 5);
                pressure_raw = be16 (data ! 6) (data ! 7)
            in ([Event EV_KEY tool_type (flag (data ! 1) (0x80 OR 0x10 OR 0x01))] @
                (if near then
                   [Event EV_ABS ABS_X (uint x_raw),
                    Event EV_ABS ABS_Y (uint y_raw),
                    Event EV_ABS ABS_PRESSURE (drop_bit 6 (uint pressure_raw)),
                    Event EV_ABS ABS_TILT_X (uint (data ! 8)),
                    Event EV_ABS ABS_TILT_Y (uint (data ! 9))]
                 else []) @
                [Event EV_KEY BTN_TOUCH (flag (data ! 1) 0x01),
                 Event EV_KEY BTN_STYLUS (flag (data ! 1) 0x02)],
                [], wheel)))
      else if data ! 0 = BUTTON_EVENT_0906 then
        (if len < 4 then ([], [ButtonEvent0906TooShort len], wheel)
         else
           ([Event EV_KEY (lbuttons ! 0) (flag (data ! 3) 0x01),
             Event EV_KEY (lbuttons ! 1) (flag (data ! 3) 0x02),
             Event EV_KEY (lbuttons ! 2) (flag (data ! 3) 0x04),
             Event EV_KEY (lbuttons ! 3) (flag (data ! 3) 0x08)],
            [], wheel))
      else ([], [UnknownMessageType (data ! 0)], wheel))"

text \<open>
  The buffer of a transfer is \<^verbatim>\<open>g_buffer\<close>, an array of \<^verbatim>\<open>AM_PACKET_LEN\<close> bytes, so
  every index the switch reads is in range; the length tests of the source guard the bytes
  that were received.  A failed write of a single event is only logged by the source and the
  batch goes on, so the model lists the events passed to
  \<^verbatim>\<open>libevdev_uinput_write_event\<close>.
\<close>

text \<open>
  What one run of the callback does: the events it writes to the uinput device (in order),
  the diagnostics it prints, the wheel position it leaves, and whether it called
  \<^verbatim>\<open>libusb_submit_transfer\<close> again.  \<open>rc_resubmit\<close> is the return code of that call.
\<close>

record outcome =
  written :: "input_event list"
  debug :: "diag list"
  wheel_after :: int
  resubmitted :: bool

definition resubmit :: "int \<Rightarrow> globals \<Rightarrow> diag list \<times> bool" where
  "resubmit rc_resubmit g =
     (if g_running g \<and> g_dev_handle g \<noteq> None
      then ((if rc_resubmit \<noteq> 0 then [ResubmitError rc_resubmit] else []), True)
      else ([NotResubmitting], False))"

definition callback_default :: "int \<Rightarrow> globals \<Rightarrow> transfer \<Rightarrow> outcome" where
  "callback_default rc_resubmit g tx =
     (if status tx \<noteq> TRANSFER_COMPLETED then
        \<lparr>written = [], debug = [TransferFailed (status tx)],
         wheel_after = g_wheel_position g, resubmitted = False\<rparr>
      else if user_data tx = None then
        (let (d, r) = resubmit rc_resubmit g in
         \<lparr>written = [], debug = UinputHandleNull # d,
          wheel_after = g_wheel_position g, resubmitted = r\<rparr>)
      else if actual_length tx < 1 then
        (let (d, r) = resubmit rc_resubmit g in
         \<lparr>written = [], debug = EmptyPacket (actual_length tx) # d,
          wheel_after = g_wheel_position g, resubmitted = r\<rparr>)
      else
        (let (evs, ds, w) = decode_switch (buffer tx) (actual_length tx) (g_wheel_position g);
             (d, r) = resubmit rc_resubmit g in
         \<lparr>written = evs @ [Event EV_SYN SYN_REPORT 0], debug = ds @ d,
          wheel_after = w, resubmitted = r\<rparr>))"

section \<open>Device identification and evdev set-up\<close>

subsection \<open>find_device\<close>

text \<open>The \<^verbatim>\<open>switch(desc.idProduct)\<close> of \<^verbatim>\<open>find_device\<close>, its case labels in source order.\<close>

definition supported_product :: "u16 \<Rightarrow> bool" where
  "supported_product p \<longleftrightarrow>
     p = PRODUCT_ID_AM3M \<or> p = PRODUCT_ID_AM0806 \<or> p = PRODUCT_ID_AM0605 \<or>
     p = PRODUCT_ID_AM1107 \<or> p = PRODUCT_ID_AM1209 \<or> p = PRODUCT_ID_RL0604 \<or>
     p = PRODUCT_ID_RL0504 \<or> p = PRODUCT_ID_GP0806 \<or> p = PRODUCT_ID_GP0806B \<or>
     p = PRODUCT_ID_GP0605 \<or> p = PRODUCT_ID_GP0605A \<or> p = PRODUCT_ID_GP0504 \<or>
     p = PRODUCT_ID_NXS1513 \<or> p = PRODUCT_ID_GP0906 \<or> p = PRODUCT_ID_APPIV0906"

text \<open>
  The loop of \<^verbatim>\<open>find_device\<close> over the entries from index \<open>i\<close> on.  An entry is
  \<open>None\<close> for a null pointer; \<open>rc_desc\<close> is the return code of
  \<^verbatim>\<open>libusb_get_device_descriptor\<close> for a device.
\<close>

fun find_device_from :: "(usb_device \<Rightarrow> int) \<Rightarrow> usb_device option list \<Rightarrow> nat \<Rightarrow> int" where
  "find_device_from rc_desc [] i = -1"
| "find_device_from rc_desc (None # ds) i = find_device_from rc_desc ds (Suc i)"
| "find_device_from rc_desc (Some d # ds) i =
     (if rc_desc d < 0 then find_device_from rc_desc ds (Suc i)
      else if idVendor (dev_desc d) = VENDOR_ID_HANVON \<and> supported_product (idProduct (dev_desc d))
      then int i
      else find_device_from rc_desc ds (Suc i))"

text \<open>\<open>list = None\<close> is the null list pointer; the array holds at least \<open>count\<close> entries.\<close>

definition find_device :: "(usb_device \<Rightarrow> int) \<Rightarrow> usb_device option list option \<Rightarrow> nat \<Rightarrow> int" where
  "find_device rc_desc list count =
     (case list of None \<Rightarrow> -1 | Some l \<Rightarrow> find_device_from rc_desc (take count l) 0)"

subsection \<open>init_ctrl: the evdev description of a product\<close>

definition abs_x_maximum :: "u16 \<Rightarrow> int" where
  "abs_x_maximum p = (if p = PRODUCT_ID_APPIV0906 then APPIV_MAX_ABS_X else AM_MAX_ABS_X)"

definition abs_y_maximum :: "u16 \<Rightarrow> int" where
  "abs_y_maximum p = (if p = PRODUCT_ID_APPIV0906 then APPIV_MAX_ABS_Y else AM_MAX_ABS_Y)"

text \<open>The switch "Enable device-specific buttons", in the order the codes are enabled.\<close>

definition device_buttons :: "u16 \<Rightarrow> ev_code list" where
  "device_buttons p =
     (if p = PRODUCT_ID_AM3M \<or> p = PRODUCT_ID_AM0806 \<or> p = PRODUCT_ID_AM0605 \<or>
         p = PRODUCT_ID_GP0806 \<or> p = PRODUCT_ID_GP0806B \<or> p = PRODUCT_ID_GP0605 \<or>
         p = PRODUCT_ID_GP0605A \<or> p = PRODUCT_ID_GP0504 \<or> p = PRODUCT_ID_NXS1513 \<or>
         p = PRODUCT_ID_GP0906
      then [BTN_0, BTN_1, BTN_2, BTN_3]
      else if p = PRODUCT_ID_AM1107 \<or> p = PRODUCT_ID_AM1209
      then [BTN_0, BTN_1, BTN_2, BTN_3, BTN_4, BTN_5, BTN_6, BTN_7]
      else if p = PRODUCT_ID_APPIV0906
      then [BTN_MIDDLE, BTN_0, BTN_1, BTN_2, BTN_3, BTN_4, BTN_5, BTN_6, BTN_7]
      else if p = PRODUCT_ID_RL0604 \<or> p = PRODUCT_ID_RL0504
      then [BTN_0, BTN_1, BTN_2, BTN_3]
      else [])"

text \<open>The switch "Set specific device name", its cases in source order.\<close>

definition device_name :: "u16 \<Rightarrow> string" where
  "device_name p =
     (if p = PRODUCT_ID_NXS1513 then ''Hanvon Nilox NXS1513''
      else if p = PRODUCT_ID_GP0504 then ''Hanvon Graphicpal 0504''
      else if p = PRODUCT_ID_GP0806 then ''Hanvon Graphicpal 0806''
      else if p = PRODUCT_ID_GP0605A then ''Hanvon Graphicpal 0605A''
      else if p = PRODUCT_ID_AM1209 then ''Hanvon ArtMaster AM1209''
      else if p = PRODUCT_ID_AM0806 then ''Hanvon ArtMaster AM0806''
      else if p = PRODUCT_ID_AM0605 then ''Hanvon ArtMaster AM0605''
      else if p = PRODUCT_ID_AM1107 then ''Hanvon Art Master AM1107''
      else if p = PRODUCT_ID_GP0806B then ''Hanvon Graphicpal 0806B''
      else if p = PRODUCT_ID_GP0605 then ''Hanvon Graphicpal 0605''
      else if p = PRODUCT_ID_RL0504 then ''Hanvon Rollick 0504''
      else if p = PRODUCT_ID_RL0604 then ''Hanvon Rollick 0604''
      else if p = PRODUCT_ID_GP0906 then ''Hanvon Graphicpal 0906''
      else if p = PRODUCT_ID_AM3M then ''Hanvon Art Master III''
      else if p = PRODUCT_ID_APPIV0906 then ''Hanvon Art Painter Pro APPIV0906''
      else ''Hanvon Tablet (Unknown Model)'')"

text \<open>
  The evdev description \<^verbatim>\<open>init_ctrl\<close> has built when it reaches
  \<^verbatim>\<open>libevdev_uinput_create_from_device\<close>: name, ids, and the enabled codes in the order
  they are enabled.
\<close>

definition build_evdev :: "device_descriptor \<Rightarrow> evdev" where
  "build_evdev desc =
     \<lparr>ev_name = device_name (idProduct desc),
      id_vendor = idVendor desc,
      id_product = idProduct desc,
      id_version = bcdDevice desc,
      enabled_keys = [BTN_TOOL_PEN, BTN_TOOL_RUBBER, BTN_TOUCH, BTN_STYLUS, BTN_STYLUS2]
                     @ device_buttons (idProduct desc),
      enabled_abs =
        [(ABS_X, \<lparr>abs_minimum = 0, abs_maximum = abs_x_maximum (idProduct desc),
                  abs_fuzz = 4, abs_flat = 0, abs_resolution = AM_RESOLUTION\<rparr>),
         (ABS_Y, \<lparr>abs_minimum = 0, abs_maximum = abs_y_maximum (idProduct desc),
                  abs_fuzz = 4, abs_flat = 0, abs_resolution = AM_RESOLUTION\<rparr>),
         (ABS_PRESSURE, \<lparr>abs_minimum = 0, abs_maximum = AM_MAX_PRESSURE,
                  abs_fuzz = 0, abs_flat = 0, abs_resolution = 0\<rparr>),
         (ABS_TILT_X, \<lparr>abs_minimum = 0, abs_maximum = AM_MAX_TILT_X,
                  abs_fuzz = 0, abs_flat = 0, abs_resolution = 0\<rparr>),
         (ABS_TILT_Y, \<lparr>abs_minimum = 0, abs_maximum = AM_MAX_TILT_Y,
                  abs_fuzz = 0, abs_flat = 0, abs_resolution = 0\<rparr>)],
      enabled_rel = [REL_WHEEL]\<rparr>"

subsection \<open>The device profile of the specification, read off the code\<close>

text \<open>
  The source has no profile structure and no lookup function: what the specification calls
  the profile of a product is the configuration \<^verbatim>\<open>init_ctrl\<close> derives from the product
  id, and a product has one exactly when \<^verbatim>\<open>find_device\<close> admits it, which is how
  \<^verbatim>\<open>hotplug_callback\<close> composes the two.  The button sets name the four cases of the
  button switch.
\<close>

datatype button_set = NoButtons | FourLeft | EightSplit | NineMixed

definition buttonSet :: "u16 \<Rightarrow> button_set" where
  "buttonSet p =
     (let ks = device_buttons p in
      if ks = [] then NoButtons
      else if ks = lbuttons then FourLeft
      else if ks = lbuttons @ rbuttons then EightSplit
      else NineMixed)"

record device_profile =
  vendorId :: u16
  productId :: u16
  displayName :: string
  maxX :: int
  maxY :: int
  maxPressure :: int
  maxTiltX :: int
  maxTiltY :: int
  buttons :: button_set
  hasWheel :: bool

definition abs_max_of :: "evdev \<Rightarrow> ev_code \<Rightarrow> int" where
  "abs_max_of e c = (case map_of (enabled_abs e) c of None \<Rightarrow> 0 | Some a \<Rightarrow> abs_maximum a)"

definition profile_of :: "evdev \<Rightarrow> device_profile" where
  "profile_of e =
     \<lparr>vendorId = id_vendor e, productId = id_product e, displayName = ev_name e,
      maxX = abs_max_of e ABS_X, maxY = abs_max_of e ABS_Y,
      maxPressure = abs_max_of e ABS_PRESSURE,
      maxTiltX = abs_max_of e ABS_TILT_X, maxTiltY = abs_max_of e ABS_TILT_Y,
      buttons = buttonSet (id_product e),
      hasWheel = (REL_WHEEL \<in> set (enabled_rel e))\<rparr>"

definition lookup :: "u16 \<Rightarrow> u16 \<Rightarrow> device_profile option" where
  "lookup v p =
     (let desc = \<lparr>idVendor = v, idProduct = p, bcdDevice = 0\<rparr>;
          dev = \<lparr>dev_id = 0, dev_desc = desc\<rparr>
      in if find_device (\<lambda>_. 0) (Some [Some dev]) 1 < 0 then None
         else Some (profile_of (build_evdev desc)))"

definition known_products :: "u16 list" where
  "known_products =
     [PRODUCT_ID_AM3M, PRODUCT_ID_AM0806, PRODUCT_ID_AM0605, PRODUCT_ID_AM1107,
      PRODUCT_ID_AM1209, PRODUCT_ID_RL0604, PRODUCT_ID_RL0504, PRODUCT_ID_GP0806,
      PRODUCT_ID_GP0806B, PRODUCT_ID_GP0605, PRODUCT_ID_GP0605A, PRODUCT_ID_GP0504,
      PRODUCT_ID_NXS1513, PRODUCT_ID_GP0906, PRODUCT_ID_APPIV0906]"

section \<open>Session management\<close>

subsection \<open>The outside world\<close>

text \<open>
  Return codes of \<^verbatim>\<open>libusb.h\<close> and \<^verbatim>\<open>errno.h\<close> that the control flow tests.
\<close>

definition LIBUSB_SUCCESS :: int where "LIBUSB_SUCCESS = 0"
definition LIBUSB_ERROR_NOT_SUPPORTED :: int where "LIBUSB_ERROR_NOT_SUPPORTED = -12"
definition EINVAL :: int where "EINVAL = 22"
definition EIO :: int where "EIO = 5"
definition ENOMEM :: int where "ENOMEM = 12"

text \<open>The three places that call \<^verbatim>\<open>libusb_get_device_descriptor\<close>.\<close>

datatype call_site = InHotplugCallback | InFindDevice | InInitCtrl

text \<open>
  The result of every library call whose outcome the code branches on.  During one hotplug
  event each of them is called at most once, so one value per call is enough.
\<close>

record env =
  rc_get_device_descriptor :: "call_site \<Rightarrow> usb_device \<Rightarrow> int"
  rc_open :: int
  rc_kernel_driver_active :: int
  rc_detach_kernel_driver :: int
  rc_claim_interface :: int
  evdev_new_ok :: bool
  rc_enable_event_code :: "ev_type \<Rightarrow> ev_code \<Rightarrow> int"
  rc_uinput_create :: int
  alloc_transfer_ok :: bool
  rc_submit_transfer :: int

text \<open>
  The calls that acquire or give back a resource, recorded in the order the code makes
  them (a call is recorded whether or not it succeeds).
\<close>

datatype usb_call =
    UsbOpen usb_device | UsbClose
  | DetachKernelDriver | AttachKernelDriver
  | ClaimInterface | ReleaseInterface
  | EvdevNew | EvdevFree
  | UinputCreate | UinputDestroy
  | AllocTransfer | FreeTransfer
  | SubmitTransfer | CancelTransfer

datatype hotplug_event = DEVICE_ARRIVED | DEVICE_LEFT | OTHER_EVENT

subsection \<open>init_ctrl\<close>

text \<open>
  \<^verbatim>\<open>init_ctrl(dev, &g_evdev, &g_uidev)\<close>: the return code, the globals afterwards and the
  calls made.  The absolute axes are enabled in the order X, Y, pressure, tilt X, tilt Y and
  the first failure jumps to \<^verbatim>\<open>error_free_evdev\<close>; a failure to enable the wheel is
  only logged.
\<close>

definition first_abs_failure :: "env \<Rightarrow> int option" where
  "first_abs_failure e =
     (case filter (\<lambda>rc. rc < 0)
             (map (rc_enable_event_code e EV_ABS)
                  [ABS_X, ABS_Y, ABS_PRESSURE, ABS_TILT_X, ABS_TILT_Y]) of
        [] \<Rightarrow> None
      | rc # _ \<Rightarrow> Some rc)"

definition init_ctrl :: "env \<Rightarrow> usb_device option \<Rightarrow> globals \<Rightarrow> int \<times> globals \<times> usb_call list" where
  "init_ctrl e dev g =
     (let g0 = g\<lparr>g_wheel_position := 0\<rparr> in
      case dev of
        None \<Rightarrow> (- EINVAL, g0, [])
      | Some d \<Rightarrow>
          if rc_get_device_descriptor e InInitCtrl d < 0 then (- EIO, g0, [])
          else if \<not> evdev_new_ok e then (- ENOMEM, g0\<lparr>g_evdev := None\<rparr>, [EvdevNew])
          else
            (case first_abs_failure e of
               Some rc \<Rightarrow> (rc, g0\<lparr>g_evdev := None\<rparr>, [EvdevNew, EvdevFree])
             | None \<Rightarrow>
                 if rc_uinput_create e < 0
                 then (rc_uinput_create e, g0\<lparr>g_evdev := None\<rparr>,
                       [EvdevNew, UinputCreate, EvdevFree])
                 else (0, g0\<lparr>g_evdev := Some (build_evdev (dev_desc d)),
                              g_uidev := Some (Uinput (build_evdev (dev_desc d)))\<rparr>,
                       [EvdevNew, UinputCreate])))"

subsection \<open>hotplug_callback\<close>

text \<open>The transfer after \<^verbatim>\<open>libusb_alloc_transfer\<close> and \<^verbatim>\<open>libusb_fill_interrupt_transfer\<close>.\<close>

definition fill_interrupt_transfer :: "globals \<Rightarrow> transfer" where
  "fill_interrupt_transfer g =
     \<lparr>tx_dev_handle = g_dev_handle g, tx_endpoint = 0x81, buffer = g_buffer g,
      tx_length = AM_PACKET_LEN, user_data = g_uidev g,
      status = TRANSFER_COMPLETED, actual_length = 0\<rparr>"

text \<open>
  The arrival branch after the device has been opened: the calls made once the handle is
  stored, and the globals afterwards.
\<close>

definition arrival_opened :: "env \<Rightarrow> usb_device \<Rightarrow> globals \<Rightarrow> globals \<times> usb_call list" where
  "arrival_opened e dev g =
     (let active = rc_kernel_driver_active e in
      if active = 1 \<and> rc_detach_kernel_driver e \<noteq> LIBUSB_SUCCESS then
        (g\<lparr>g_dev_handle := None\<rparr>, [DetachKernelDriver, UsbClose])
      else if active \<noteq> 1 \<and> active < 0 \<and> active \<noteq> LIBUSB_ERROR_NOT_SUPPORTED then
        (g\<lparr>g_dev_handle := None\<rparr>, [UsbClose])
      else
        (let detach = (if active = 1 then [DetachKernelDriver] else []) in
         if rc_claim_interface e \<noteq> LIBUSB_SUCCESS then
           (g\<lparr>g_dev_handle := None\<rparr>,
            detach @ [ClaimInterface, AttachKernelDriver, UsbClose])
         else
           (let (rc, g1, init_calls) = init_ctrl e (Some dev) g in
            if rc < 0 then
              (g1\<lparr>g_dev_handle := None, g_evdev := None, g_uidev := None\<rparr>,
               detach @ [ClaimInterface] @ init_calls @
               [ReleaseInterface, AttachKernelDriver, UsbClose] @
               (if g_evdev g1 \<noteq> None then [EvdevFree] else []))
            else if \<not> alloc_transfer_ok e then
              (g1\<lparr>g_tx := None, g_uidev := None, g_evdev := None, g_dev_handle := None\<rparr>,
               detach @ [ClaimInterface] @ init_calls @
               [AllocTransfer, UinputDestroy, ReleaseInterface, AttachKernelDriver, UsbClose])
            else
              (let g2 = g1\<lparr>g_tx := Some (fill_interrupt_transfer g1)\<rparr> in
               if rc_submit_transfer e \<noteq> LIBUSB_SUCCESS then
                 (g2\<lparr>g_tx := None, g_uidev := None, g_evdev := None, g_dev_handle := None\<rparr>,
                  detach @ [ClaimInterface] @ init_calls @
                  [AllocTransfer, SubmitTransfer, FreeTransfer, UinputDestroy,
                   ReleaseInterface, AttachKernelDriver, UsbClose])
               else
                 (g2, detach @ [ClaimInterface] @ init_calls @
                      [AllocTransfer, SubmitTransfer])))))"

definition arrival :: "env \<Rightarrow> usb_device \<Rightarrow> globals \<Rightarrow> globals \<times> usb_call list" where
  "arrival e dev g =
     (if g_dev_handle g \<noteq> None then (g, [])
      else if find_device (rc_get_device_descriptor e InFindDevice) (Some [Some dev]) 1 < 0
      then (g, [])
      else if rc_open e \<noteq> LIBUSB_SUCCESS then (g\<lparr>g_dev_handle := None\<rparr>, [UsbOpen dev])
      else
        (let (g', calls) = arrival_opened e dev (g\<lparr>g_dev_handle := Some (Handle dev)\<rparr>)
         in (g', UsbOpen dev # calls)))"

definition departure :: "usb_device \<Rightarrow> globals \<Rightarrow> globals \<times> usb_call list" where
  "departure dev g =
     (case g_dev_handle g of
        None \<Rightarrow> (g, [])
      | Some h \<Rightarrow>
          if libusb_get_device h = dev then
            (let g1 = (if g_tx g \<noteq> None then g\<lparr>g_tx := None\<rparr> else g);
                 g2 = (if g_uidev g1 \<noteq> None then g1\<lparr>g_uidev := None, g_evdev := None\<rparr> else g1)
             in (g2\<lparr>g_dev_handle := None\<rparr>,
                 (if g_tx g \<noteq> None then [CancelTransfer, FreeTransfer] else []) @
                 (if g_uidev g \<noteq> None then [UinputDestroy] else []) @
                 [ReleaseInterface, AttachKernelDriver, UsbClose]))
          else (g, []))"

text \<open>
  The messages \<^verbatim>\<open>hotplug_callback\<close> prints do not influence its control flow and are
  left out.
\<close>

text \<open>
  \<open>hotplug_callback e dev event g\<close>: the globals afterwards, the calls made, and the value
  returned to libusb (0 keeps the callback registered).
\<close>

definition hotplug_callback ::
  "env \<Rightarrow> usb_device \<Rightarrow> hotplug_event \<Rightarrow> globals \<Rightarrow> globals \<times> usb_call list \<times> int" where
  "hotplug_callback e dev event g =
     (if rc_get_device_descriptor e InHotplugCallback dev < 0 then (g, [], 0)
      else
        (case event of
           DEVICE_ARRIVED \<Rightarrow> (let (g', calls) = arrival e dev g in (g', calls, 0))
         | DEVICE_LEFT \<Rightarrow> (let (g', calls) = departure dev g in (g', calls, 0))
         | OTHER_EVENT \<Rightarrow> (g, [], 0)))"

section \<open>The vocabulary of the specification\<close>

text \<open>
  The specification names the events by their meaning.  Each semantic event stands for the
  one input event that the code writes for it; nothing is decoded here.
\<close>

datatype tool = Pen | Eraser

definition ToolState :: "tool \<Rightarrow> bool \<Rightarrow> input_event" where
  "ToolState t active =
     Event EV_KEY (case t of Pen \<Rightarrow> BTN_TOOL_PEN | Eraser \<Rightarrow> BTN_TOOL_RUBBER)
           (if active then 1 else 0)"

definition Touch :: "bool \<Rightarrow> input_event" where
  "Touch b = Event EV_KEY BTN_TOUCH (if b then 1 else 0)"

definition StylusButton :: "nat \<Rightarrow> bool \<Rightarrow> input_event" where
  "StylusButton i b = Event EV_KEY ([BTN_STYLUS, BTN_STYLUS2] ! i) (if b then 1 else 0)"

definition Button :: "nat \<Rightarrow> bool \<Rightarrow> input_event" where
  "Button i b = Event EV_KEY ((lbuttons @ rbuttons) ! i) (if b then 1 else 0)"

definition AbsX :: "int \<Rightarrow> input_event" where "AbsX v = Event EV_ABS ABS_X v"
definition AbsY :: "int \<Rightarrow> input_event" where "AbsY v = Event EV_ABS ABS_Y v"
definition AbsPressure :: "int \<Rightarrow> input_event" where "AbsPressure v = Event EV_ABS ABS_PRESSURE v"
definition AbsTiltX :: "int \<Rightarrow> input_event" where "AbsTiltX v = Event EV_ABS ABS_TILT_X v"
definition AbsTiltY :: "int \<Rightarrow> input_event" where "AbsTiltY v = Event EV_ABS ABS_TILT_Y v"
definition RelWheel :: "int \<Rightarrow> input_event" where "RelWheel d = Event EV_REL REL_WHEEL d"
definition SyncBatchEnd :: input_event where "SyncBatchEnd = Event EV_SYN SYN_REPORT 0"

fun event_type :: "input_event \<Rightarrow> ev_type" where
  "event_type (Event t c v) = t"

subsection \<open>Concrete inputs\<close>

text \<open>The globals as the static initialisers leave them at program start.\<close>

definition idle_globals :: globals where
  "idle_globals =
     \<lparr>g_dev_handle = None, g_uidev = None, g_evdev = None, g_tx = None,
      g_buffer = replicate 10 0, g_running = True, g_wheel_position = 0\<rparr>"

text \<open>A transfer that completed with \<open>n\<close> bytes received into the buffer \<open>buf\<close>.\<close>

definition completed_transfer :: "uinput \<Rightarrow> u8 list \<Rightarrow> int \<Rightarrow> transfer" where
  "completed_transfer ud buf n =
     \<lparr>tx_dev_handle = None, tx_endpoint = 0x81, buffer = buf, tx_length = AM_PACKET_LEN,
      user_data = Some ud, status = TRANSFER_COMPLETED, actual_length = n\<rparr>"

definition tablet :: "u16 \<Rightarrow> usb_device" where
  "tablet p = \<lparr>dev_id = 1, dev_desc = \<lparr>idVendor = VENDOR_ID_HANVON, idProduct = p, bcdDevice = 0\<rparr>\<rparr>"

text \<open>The uinput device \<^verbatim>\<open>init_ctrl\<close> creates for a product.\<close>

definition uinput_of :: "u16 \<Rightarrow> uinput" where
  "uinput_of p = Uinput (build_evdev (dev_desc (tablet p)))"

text \<open>A world in which every library call succeeds and no kernel driver is bound.\<close>

definition all_succeed :: env where
  "all_succeed =
     \<lparr>rc_get_device_descriptor = (\<lambda>_ _. 0), rc_open = 0, rc_kernel_driver_active = 0,
      rc_detach_kernel_driver = 0, rc_claim_interface = 0, evdev_new_ok = True,
      rc_enable_event_code = (\<lambda>_ _. 0), rc_uinput_create = 0, alloc_transfer_ok = True,
      rc_submit_transfer = 0\<rparr>"

text \<open>The globals while a session for product \<open>p\<close> is active, before any packet.\<close>

definition active_globals :: "u16 \<Rightarrow> globals" where
  "active_globals p =
     \<lparr>g_dev_handle = Some (Handle (tablet p)),
      g_uidev = Some (uinput_of p),
      g_evdev = Some (build_evdev (dev_desc (tablet p))),
      g_tx = Some \<lparr>tx_dev_handle = Some (Handle (tablet p)), tx_endpoint = 0x81,
                   buffer = replicate 10 0, tx_length = AM_PACKET_LEN,
                   user_data = Some (uinput_of p),
                   status = TRANSFER_COMPLETED, actual_length = 0\<rparr>,
      g_buffer = replicate 10 0, g_running = True, g_wheel_position = 0\<rparr>"



subsection \<open>Stages of an arrival\<close>


definition admitted :: "env \<Rightarrow> usb_device \<Rightarrow> bool" where
  "admitted e dev \<longleftrightarrow>
     \<not> rc_get_device_descriptor e InHotplugCallback dev < 0 \<and>
     \<not> find_device (rc_get_device_descriptor e InFindDevice) (Some [Some dev]) 1 < 0"







subsection \<open>Statements of the specification kept for comparison\<close>

text \<open>
  The wheel delta as the specification words it: the wrap correction applies when the
  magnitude of the raw difference exceeds \<open>0x20\<close>.  It is compared with \<open>wheel_delta\<close>.
\<close>

definition claimed_wheel_delta :: "u8 \<Rightarrow> int \<Rightarrow> int" where
  "claimed_wheel_delta data wheel =
     (let delta = uint data - wheel in
      if \<bar>delta\<bar> > 0x20
      then (if delta > 0 then delta - 0x40 else delta + 0x40)
      else delta)"

text \<open>The diagnostics that report a packet shorter than its message type requires.\<close>

fun TooShort :: "diag \<Rightarrow> bool" where
  "TooShort (EmptyPacket n) = True"
| "TooShort (ButtonEventGPTooShort n) = True"
| "TooShort (PenEventTooShort n) = True"
| "TooShort (ButtonEvent0906TooShort n) = True"
| "TooShort d = False"

section \<open>Auxiliary facts\<close>

lemmas product_id_defs =
  PRODUCT_ID_AM3M_def PRODUCT_ID_AM0806_def PRODUCT_ID_AM0605_def PRODUCT_ID_AM1107_def
  PRODUCT_ID_AM1209_def PRODUCT_ID_RL0604_def PRODUCT_ID_RL0504_def PRODUCT_ID_GP0806_def
  PRODUCT_ID_GP0806B_def PRODUCT_ID_GP0605_def PRODUCT_ID_GP0605A_def PRODUCT_ID_GP0504_def
  PRODUCT_ID_NXS1513_def PRODUCT_ID_GP0906_def PRODUCT_ID_APPIV0906_def

lemmas event_defs =
  ToolState_def Touch_def StylusButton_def Button_def AbsX_def AbsY_def AbsPressure_def
  AbsTiltX_def AbsTiltY_def RelWheel_def SyncBatchEnd_def lbuttons_def rbuttons_def

lemmas msg_defs = BUTTON_EVENT_GP_def PEN_EVENT_def BUTTON_EVENT_0906_def AM_PACKET_LEN_def

text \<open>The two bytes of a big-endian field, read as a number.\<close>

lemma be16_uint: "uint (be16 hi lo) = 256 * uint hi + uint lo"
proof -
  have hi: "uint hi < 256" "0 \<le> uint hi" using uint_lt2p [of hi] by simp_all
  have lo: "uint lo < 256" "0 \<le> uint lo" using uint_lt2p [of lo] by simp_all
  have "be16 hi lo = (word_cat hi lo :: u16)"
    by (simp add: be16_def word_cat_eq_push_bit_or)
  also have "\<dots> = push_bit 8 (ucast hi) + ucast lo"
    by (simp add: word_cat_eq)
  finally have "uint (be16 hi lo) = (uint hi * 256 + uint lo) mod 65536"
    by (simp add: uint_word_ariths unsigned_push_bit_eq unsigned_ucast_eq take_bit_eq_mod
        push_bit_eq_mult mod_simps)
  with hi lo show ?thesis by simp
qed

text \<open>The proximity mask tests three separate bits.\<close>

lemma near_bits:
  "(st AND (0x80 OR 0x10 OR 0x01) \<noteq> 0) \<longleftrightarrow>
   (st AND 0x80 \<noteq> 0 \<or> st AND 0x10 \<noteq> 0 \<or> st AND 0x01 \<noteq> (0::u8))"
  by (simp only: bit.conj_disj_distrib or_eq_0_iff) blast

text \<open>A wheel position never matches the button pattern.\<close>

lemma wheel_byte_not_button_pattern: "data \<le> 0x3f \<Longrightarrow> data AND 0xf0 \<noteq> (0xa0::u8)"
proof
  assume le: "data \<le> 0x3f" and eq: "data AND 0xf0 = 0xa0"
  have "data AND 0xf0 \<le> data" by (rule word_and_le2)
  with eq have "(0xa0::u8) \<le> data" by simp
  from this le have "(0xa0::u8) \<le> 0x3f" by (rule order_trans)
  then show False by simp
qed

lemma decode_pen:
  "10 \<le> len \<Longrightarrow> data ! 0 = 0x02 \<Longrightarrow>
   decode_switch data len w =
     (let st = data ! 1;
          active = (st AND 0x80 \<noteq> 0 \<or> st AND 0x10 \<noteq> 0 \<or> st AND 0x01 \<noteq> 0) in
      ([ToolState (if st AND 0x20 \<noteq> 0 then Eraser else Pen) active] @
       (if active then
          [AbsX (256 * uint (data ! 2) + uint (data ! 3)),
           AbsY (256 * uint (data ! 4) + uint (data ! 5)),
           AbsPressure ((256 * uint (data ! 6) + uint (data ! 7)) div 64),
           AbsTiltX (uint (data ! 8)), AbsTiltY (uint (data ! 9))]
        else []) @
       [Touch (st AND 0x01 \<noteq> 0), StylusButton 0 (st AND 0x02 \<noteq> 0)], [], w))"
  unfolding decode_switch_def Let_def near_bits flag_def
  by (simp add: msg_defs be16_uint drop_bit_eq_div event_defs)

lemma uint_wheel_byte: "(data::u8) \<le> 0x3f \<Longrightarrow> 0 \<le> uint data \<and> uint data \<le> 0x3f"
  by (simp add: word_le_def)

lemma wheel_correction_zero:
  fixes x prev :: int
  assumes "0 \<le> prev" "prev \<le> 0x3f" "0 \<le> x" "x \<le> 0x3f"
    and "(if \<bar>x - prev\<bar> > 0x3f div 2
          then (if x - prev > 0 then x - prev - 0x40 else x - prev + 0x40)
          else x - prev) = 0"
  shows "x = prev"
  using assms by (simp split: if_splits)

lemma report_buttons_wheel:
  assumes "0 \<le> prev" "prev \<le> 0x3f" "data \<le> 0x3f"
  shows "report_buttons bs data prev =
           ((if wheel_delta data prev \<noteq> 0 then [RelWheel (wheel_delta data prev)] else []),
            uint data)"
proof -
  have np: "data AND 0xf0 \<noteq> 0xa0" using assms(3) by (rule wheel_byte_not_button_pattern)
  have rng: "0 \<le> uint data \<and> uint data \<le> 0x3f" using assms(3) by (rule uint_wheel_byte)
  have z: "wheel_delta data prev = 0 \<Longrightarrow> uint data = prev"
    using assms(1,2) rng wheel_correction_zero [of prev "uint data"]
    by (simp add: wheel_delta_def Let_def)
  show ?thesis using np assms(3) z
    by (simp add: report_buttons_def Let_def RelWheel_def)
qed

lemma wheel_delta_threshold:
  "wheel_delta data prev =
     (let d = uint data - prev in
      if \<bar>d\<bar> > 0x1f then (if d > 0 then d - 0x40 else d + 0x40) else d)"
  by (simp add: wheel_delta_def)

lemma decode_gp_left:
  "5 \<le> len \<Longrightarrow> data ! 0 = 0x01 \<Longrightarrow> data ! 1 = 0x55 \<Longrightarrow> data ! 3 \<noteq> 0xAA \<Longrightarrow>
   decode_switch data len w =
     (fst (report_buttons lbuttons (data ! 2) w), [], snd (report_buttons lbuttons (data ! 2) w))"
  by (simp add: decode_switch_def msg_defs split_def Let_def)

lemma resubmit_snd: "snd (resubmit rc g) = (g_running g \<and> g_dev_handle g \<noteq> None)"
  by (simp add: resubmit_def)

lemma decode_0906:
  "4 \<le> len \<Longrightarrow> data ! 0 = 0x0C \<Longrightarrow>
   decode_switch data len w =
     ([Button 0 (data ! 3 AND 0x01 \<noteq> 0), Button 1 (data ! 3 AND 0x02 \<noteq> 0),
       Button 2 (data ! 3 AND 0x04 \<noteq> 0), Button 3 (data ! 3 AND 0x08 \<noteq> 0)], [], w)"
  by (simp add: decode_switch_def msg_defs flag_def event_defs)

lemma low_nibble_bits:
  "(x AND 0x0f) AND 0x01 = x AND (0x01::u8)" "(x AND 0x0f) AND 0x02 = x AND (0x02::u8)"
  "(x AND 0x0f) AND 0x04 = x AND (0x04::u8)" "(x AND 0x0f) AND 0x08 = x AND (0x08::u8)"
  by (simp_all add: and.assoc)

lemma buttonSet_APPIV: "buttonSet PRODUCT_ID_APPIV0906 = NineMixed"
  by (simp add: buttonSet_def device_buttons_def product_id_defs lbuttons_def rbuttons_def)

lemma report_buttons_no_syn:
  "e \<in> set (fst (report_buttons bs d w)) \<Longrightarrow> event_type e \<noteq> EV_SYN"
  by (auto simp add: report_buttons_def Let_def split: if_splits)

lemma decode_switch_no_syn:
  "e \<in> set (fst (decode_switch data len w)) \<Longrightarrow> event_type e \<noteq> EV_SYN"
  unfolding decode_switch_def Let_def split_def
  by (auto split: if_splits dest: report_buttons_no_syn)

lemma supported_iff: "supported_product p \<longleftrightarrow> p \<in> set known_products"
  by (simp add: supported_product_def known_products_def)

lemma known_distinct: "distinct known_products \<and> length known_products = 15"
  by (simp add: known_products_def product_id_defs)

lemma find_single:
  "find_device rc (Some [Some d]) (Suc 0) =
     (if rc d < 0 then -1
      else if idVendor (dev_desc d) = VENDOR_ID_HANVON \<and> supported_product (idProduct (dev_desc d))
      then 0 else -1)"
  by (simp add: find_device_def)

lemma lookup_eq:
  "lookup v p =
      (if v = VENDOR_ID_HANVON \<and> p \<in> set known_products
       then Some (profile_of (build_evdev \<lparr>idVendor = v, idProduct = p, bcdDevice = 0\<rparr>))
       else None)"
  by (simp add: lookup_def find_single supported_iff Let_def)

lemma arrival_succeeds:
  "supported_product p \<Longrightarrow>
   hotplug_callback all_succeed (tablet p) DEVICE_ARRIVED idle_globals =
     (active_globals p,
      [UsbOpen (tablet p), ClaimInterface, EvdevNew, UinputCreate, AllocTransfer, SubmitTransfer],
      0)"
  by (simp add: hotplug_callback_def arrival_def arrival_opened_def init_ctrl_def
      first_abs_failure_def all_succeed_def idle_globals_def find_single tablet_def
      LIBUSB_SUCCESS_def LIBUSB_ERROR_NOT_SUPPORTED_def fill_interrupt_transfer_def Let_def
      active_globals_def uinput_of_def VENDOR_ID_HANVON_def)

lemma departure_releases:
  "hotplug_callback all_succeed (tablet p) DEVICE_LEFT (active_globals p) =
     (idle_globals,
      [CancelTransfer, FreeTransfer, UinputDestroy, ReleaseInterface, AttachKernelDriver, UsbClose],
      0)"
  by (simp add: hotplug_callback_def departure_def all_succeed_def idle_globals_def
      active_globals_def Let_def)




lemma admitted_all_succeed:
  "supported_product p \<Longrightarrow> rc_get_device_descriptor e = (\<lambda>_ _. 0) \<Longrightarrow> admitted e (tablet p)"
  by (simp add: admitted_def find_single tablet_def)

lemma decode_gp:
  "5 \<le> len \<Longrightarrow> data ! 0 = 0x01 \<Longrightarrow> data ! 1 = 0x55 \<Longrightarrow>
   decode_switch data len w =
     (let l = report_buttons lbuttons (data ! 2) w;
          r = (if data ! 3 = 0xAA then report_buttons rbuttons (data ! 4) (snd l)
               else ([], snd l))
      in (fst l @ fst r, [], snd r))"
  by (simp add: decode_switch_def msg_defs split_def Let_def)

lemma report_buttons_still:
  "v \<le> 0x3f \<Longrightarrow> report_buttons bs v (uint v) = ([], uint v)"
  by (simp add: report_buttons_def wheel_byte_not_button_pattern wheel_delta_def)

lemma right_side_no_wheel:
  assumes "v \<le> 0x3f" and "b4 = v \<or> 0x3f < b4"
  shows "report_buttons rbuttons b4 (uint v) =
           ((if b4 AND 0xf0 = 0xa0
             then [Button 5 (b4 AND 0x02 \<noteq> 0), Button 6 (b4 AND 0x04 \<noteq> 0),
                   Button 7 (b4 AND 0x08 \<noteq> 0)]
             else []), uint v)"
proof (cases "b4 = v")
  case True
  with assms(1) show ?thesis
    by (simp add: report_buttons_still wheel_byte_not_button_pattern)
next
  case False
  with assms(2) have "\<not> b4 \<le> 0x3f" by (simp add: not_le)
  then show ?thesis
    by (simp add: report_buttons_def flag_def event_defs)
qed

lemma button_events_not_rel:
  "e \<in> set ((if c then [Button i a, Button j b, Button k d] else []) @ [SyncBatchEnd]) \<Longrightarrow>
   event_type e \<noteq> EV_REL"
  by (auto simp add: Button_def SyncBatchEnd_def split: if_splits)

section \<open>Pen packets\<close>

text \<open>
  Claim C1.  A completed transfer of 10 bytes whose byte 0 is \<open>0x02\<close> writes, in this
  order: the tool event (eraser if status bit \<open>0x20\<close> is set, pen otherwise; active iff one
  of the bits \<open>0x80\<close>, \<open>0x10\<close>, \<open>0x01\<close> is set); if and only if the tool is active, X and Y
  (big-endian bytes 2-3 and 4-5), the pressure (big-endian bytes 6-7 shifted right by 6) and
  the two tilt bytes; then the touch event (bit \<open>0x01\<close>), the stylus button (bit
  \<open>0x02\<close>) and one synchronisation marker.  For status \<open>0x81\<close> the stylus button is
  reported released, since bit \<open>0x02\<close> of \<open>0x81\<close> is clear; for status \<open>0x00\<close> no
  absolute axis is written.
\<close>

theorem pen_packet_events:
  "(status tx = TRANSFER_COMPLETED \<and> user_data tx = Some ud \<and> actual_length tx = 10 \<and>
    length (buffer tx) = 10 \<and> buffer tx ! 0 = 0x02 \<longrightarrow>
    written (callback_default rc g tx) =
      (let b = buffer tx; st = b ! 1;
           active = (st AND 0x80 \<noteq> 0 \<or> st AND 0x10 \<noteq> 0 \<or> st AND 0x01 \<noteq> 0) in
       [ToolState (if st AND 0x20 \<noteq> 0 then Eraser else Pen) active] @
       (if active then
          [AbsX (256 * uint (b ! 2) + uint (b ! 3)),
           AbsY (256 * uint (b ! 4) + uint (b ! 5)),
           AbsPressure ((256 * uint (b ! 6) + uint (b ! 7)) div 64),
           AbsTiltX (uint (b ! 8)), AbsTiltY (uint (b ! 9))]
        else []) @
       [Touch (st AND 0x01 \<noteq> 0), StylusButton 0 (st AND 0x02 \<noteq> 0), SyncBatchEnd]))
   \<and> written (callback_default rc g
        (completed_transfer ud [0x02, 0x81, 0x01, 0x02, 0x00, 0x10, 0x04, 0x00, 0x05, 0x06] 10)) =
       [ToolState Pen True, AbsX 0x0102, AbsY 0x0010, AbsPressure 16, AbsTiltX 5, AbsTiltY 6,
        Touch True, StylusButton 0 False, SyncBatchEnd]
   \<and> written (callback_default rc g
        (completed_transfer ud [0x02, 0x00, xh, xl, yh, yl, ph, pl, tx', ty'] 10)) =
       [ToolState Pen False, Touch False, StylusButton 0 False, SyncBatchEnd]"
proof (intro conjI impI)
  assume "status tx = TRANSFER_COMPLETED \<and> user_data tx = Some ud \<and> actual_length tx = 10 \<and>
    length (buffer tx) = 10 \<and> buffer tx ! 0 = 0x02"
  then show "written (callback_default rc g tx) =
      (let b = buffer tx; st = b ! 1;
           active = (st AND 0x80 \<noteq> 0 \<or> st AND 0x10 \<noteq> 0 \<or> st AND 0x01 \<noteq> 0) in
       [ToolState (if st AND 0x20 \<noteq> 0 then Eraser else Pen) active] @
       (if active then
          [AbsX (256 * uint (b ! 2) + uint (b ! 3)),
           AbsY (256 * uint (b ! 4) + uint (b ! 5)),
           AbsPressure ((256 * uint (b ! 6) + uint (b ! 7)) div 64),
           AbsTiltX (uint (b ! 8)), AbsTiltY (uint (b ! 9))]
        else []) @
       [Touch (st AND 0x01 \<noteq> 0), StylusButton 0 (st AND 0x02 \<noteq> 0), SyncBatchEnd])"
    by (simp add: callback_default_def decode_pen Let_def split_def SyncBatchEnd_def)
next
  show "written (callback_default rc g
        (completed_transfer ud [0x02, 0x81, 0x01, 0x02, 0x00, 0x10, 0x04, 0x00, 0x05, 0x06] 10)) =
       [ToolState Pen True, AbsX 0x0102, AbsY 0x0010, AbsPressure 16, AbsTiltX 5, AbsTiltY 6,
        Touch True, StylusButton 0 False, SyncBatchEnd]"
    by (simp add: callback_default_def completed_transfer_def decode_pen Let_def split_def
        SyncBatchEnd_def)
next
  show "written (callback_default rc g
        (completed_transfer ud [0x02, 0x00, xh, xl, yh, yl, ph, pl, tx', ty'] 10)) =
       [ToolState Pen False, Touch False, StylusButton 0 False, SyncBatchEnd]"
    by (simp add: callback_default_def completed_transfer_def decode_pen Let_def split_def
        SyncBatchEnd_def)
qed

text \<open>
  An eraser packet with the side button pressed, at the largest coordinates of the
  ArtMaster tablets: nine events, in the stated order.
\<close>

theorem pen_packet_events_witness:
  "written (callback_default 0 idle_globals
      (completed_transfer (uinput_of PRODUCT_ID_AM0806)
         [0x02, 0xA2, 0x27, 0xDE, 0x1C, 0xFE, 0xFF, 0xC0, 0x3F, 0x7F] 10)) =
   [ToolState Eraser True, AbsX 0x27DE, AbsY 0x1CFE, AbsPressure 1023, AbsTiltX 0x3F,
    AbsTiltY 0x7F, Touch False, StylusButton 0 True, SyncBatchEnd]"
  using pen_packet_events [of "completed_transfer (uinput_of PRODUCT_ID_AM0806)
         [0x02, 0xA2, 0x27, 0xDE, 0x1C, 0xFE, 0xFF, 0xC0, 0x3F, 0x7F] 10"
         "uinput_of PRODUCT_ID_AM0806" 0 idle_globals]
  by (simp add: completed_transfer_def)

text \<open>
  The event list that the specification gives for status \<open>0x81\<close>, with the stylus button
  pressed, is not what the callback writes.
\<close>

theorem pen_example_counterexample:
  "written (callback_default 0 idle_globals
      (completed_transfer (uinput_of PRODUCT_ID_AM0806)
         [0x02, 0x81, 0x01, 0x02, 0x00, 0x10, 0x04, 0x00, 0x05, 0x06] 10)) \<noteq>
   [ToolState Pen True, AbsX 0x0102, AbsY 0x0010, AbsPressure 16, AbsTiltX 5, AbsTiltY 6,
    Touch True, StylusButton 0 True, SyncBatchEnd]"
  by (simp add: callback_default_def completed_transfer_def decode_pen Let_def split_def
      event_defs)

section \<open>The wheel\<close>

text \<open>
  Claim C2.  In the wheel branch, for a stored position in \<open>0..0x3f\<close> and a data byte in
  \<open>0..0x3f\<close>, the delta is the byte minus the stored position, corrected by \<open>0x40\<close>
  (subtracted when the difference is positive, added otherwise) exactly when its magnitude
  exceeds \<open>0x1f\<close>; a wheel event with the corrected delta is written only if it is
  non-zero, and the byte is the stored position afterwards.  The same holds for a whole
  general-button packet with the left marker and without the right one.  From \<open>0x3e\<close> to
  \<open>0x01\<close> the delta is \<open>+3\<close>.
\<close>

theorem wheel_branch_delta:
  "(0 \<le> prev \<and> prev \<le> 0x3f \<and> data \<le> 0x3f \<longrightarrow>
      (let d = uint data - prev;
           d' = (if \<bar>d\<bar> > 0x1f then (if d > 0 then d - 0x40 else d + 0x40) else d)
       in report_buttons bs data prev = ((if d' \<noteq> 0 then [RelWheel d'] else []), uint data)
          \<and> (status tx = TRANSFER_COMPLETED \<and> user_data tx = Some ud \<and> 5 \<le> actual_length tx \<and>
             buffer tx ! 0 = 0x01 \<and> buffer tx ! 1 = 0x55 \<and> buffer tx ! 2 = data \<and>
             buffer tx ! 3 \<noteq> 0xAA \<and> g_wheel_position g = prev \<longrightarrow>
             written (callback_default rc g tx) =
               (if d' \<noteq> 0 then [RelWheel d'] else []) @ [SyncBatchEnd] \<and>
             wheel_after (callback_default rc g tx) = uint data)))
   \<and> report_buttons bs 0x01 0x3e = ([RelWheel 3], 0x01)"
proof (intro conjI impI)
  assume h: "0 \<le> prev \<and> prev \<le> 0x3f \<and> data \<le> 0x3f"
  then have rb: "report_buttons bs data prev =
           ((if wheel_delta data prev \<noteq> 0 then [RelWheel (wheel_delta data prev)] else []),
            uint data)" for bs
    by (simp add: report_buttons_wheel)
  show "let d = uint data - prev;
           d' = (if \<bar>d\<bar> > 0x1f then (if d > 0 then d - 0x40 else d + 0x40) else d)
       in report_buttons bs data prev = ((if d' \<noteq> 0 then [RelWheel d'] else []), uint data)
          \<and> (status tx = TRANSFER_COMPLETED \<and> user_data tx = Some ud \<and> 5 \<le> actual_length tx \<and>
             buffer tx ! 0 = 0x01 \<and> buffer tx ! 1 = 0x55 \<and> buffer tx ! 2 = data \<and>
             buffer tx ! 3 \<noteq> 0xAA \<and> g_wheel_position g = prev \<longrightarrow>
             written (callback_default rc g tx) =
               (if d' \<noteq> 0 then [RelWheel d'] else []) @ [SyncBatchEnd] \<and>
             wheel_after (callback_default rc g tx) = uint data)"
    unfolding Let_def wheel_delta_threshold [unfolded Let_def, symmetric]
  proof (intro conjI impI)
    show "report_buttons bs data prev =
      (if wheel_delta data prev \<noteq> 0 then [RelWheel (wheel_delta data prev)] else [], uint data)"
      by (rule rb)
  next
    assume t: "status tx = TRANSFER_COMPLETED \<and> user_data tx = Some ud \<and> 5 \<le> actual_length tx \<and>
             buffer tx ! 0 = 0x01 \<and> buffer tx ! 1 = 0x55 \<and> buffer tx ! 2 = data \<and>
             buffer tx ! 3 \<noteq> 0xAA \<and> g_wheel_position g = prev"
    then have d: "decode_switch (buffer tx) (actual_length tx) prev =
       (fst (report_buttons lbuttons data prev), [], snd (report_buttons lbuttons data prev))"
      using decode_gp_left [of "actual_length tx" "buffer tx" prev] by simp
    from t d show "written (callback_default rc g tx) =
        (if wheel_delta data prev \<noteq> 0 then [RelWheel (wheel_delta data prev)] else []) @ [SyncBatchEnd]"
      by (simp add: callback_default_def split_def Let_def rb SyncBatchEnd_def)
    from t d show "wheel_after (callback_default rc g tx) = uint data"
      by (simp add: callback_default_def split_def Let_def rb)
  qed
next
  show "report_buttons bs 0x01 0x3e = ([RelWheel 3], 0x01)"
    by (simp add: report_buttons_def wheel_delta_def Let_def RelWheel_def)
qed

text \<open>
  One step back across the wrap on the right-hand wheel, and a jump of exactly \<open>0x20\<close>
  in a packet, which the correction turns into \<open>-0x20\<close>.
\<close>

theorem wheel_branch_delta_witness:
  "report_buttons rbuttons 0x3f 0x00 = ([RelWheel (-1)], 0x3f) \<and>
   written (callback_default 0 (idle_globals\<lparr>g_wheel_position := 0x10\<rparr>)
      (completed_transfer (uinput_of PRODUCT_ID_AM1107) [0x01, 0x55, 0x30, 0, 0, 0, 0, 0, 0, 0] 10))
     = [RelWheel (-0x20), SyncBatchEnd]"
  using wheel_branch_delta [of 0 "0x3f" rbuttons
          "completed_transfer (uinput_of PRODUCT_ID_AM1107) [0x01, 0x55, 0x30, 0, 0, 0, 0, 0, 0, 0] 10"
          "uinput_of PRODUCT_ID_AM1107" "idle_globals\<lparr>g_wheel_position := 0x10\<rparr>" 0]
        wheel_branch_delta [of "0x10" "0x30" lbuttons
          "completed_transfer (uinput_of PRODUCT_ID_AM1107) [0x01, 0x55, 0x30, 0, 0, 0, 0, 0, 0, 0] 10"
          "uinput_of PRODUCT_ID_AM1107" "idle_globals\<lparr>g_wheel_position := 0x10\<rparr>" 0]
  by (simp add: completed_transfer_def idle_globals_def)

text \<open>
  At a raw difference of exactly \<open>0x20\<close> the specification's threshold leaves the delta
  alone, and the code corrects it.
\<close>

theorem wheel_threshold_counterexample:
  "claimed_wheel_delta 0x20 0 = 0x20 \<and>
   report_buttons lbuttons 0x20 0 = ([RelWheel (- 0x20)], 0x20)"
  by (simp add: claimed_wheel_delta_def report_buttons_def wheel_delta_def RelWheel_def)

text \<open>
  Claim C3.  Wheel decoding is idempotent under no movement when the packet carries no other
  wheel position.  For a stored position in \<open>0..0x3f\<close> and a wheel byte \<open>v\<close> in
  \<open>0..0x3f\<close>, the second of two successive runs of the wheel branch on \<open>v\<close> computes
  the delta 0, writes no wheel event and leaves the stored position equal to \<open>v\<close>.  For
  a general-button packet with the left marker and left byte \<open>v\<close> whose right-hand byte,
  if the right marker \<open>0xAA\<close> is present, is \<open>v\<close> itself or lies above \<open>0x3f\<close>, decoded
  twice in succession: the first decode leaves the position at \<open>v\<close>, the second computes
  the delta 0, writes no wheel event (only the right-hand button events, if byte 4 has the
  button pattern, and the synchronisation marker) and leaves the position at \<open>v\<close>.
\<close>

theorem wheel_decode_idempotent:
  "0 \<le> prev \<and> prev \<le> 0x3f \<and> v \<le> 0x3f \<longrightarrow>
     (let (ev1, w1) = report_buttons bs v prev;
          (ev2, w2) = report_buttons bs v w1
      in wheel_delta v w1 = 0 \<and> ev2 = [] \<and> w2 = uint v)
     \<and> (status tx = TRANSFER_COMPLETED \<and> user_data tx = Some ud \<and> 5 \<le> actual_length tx \<and>
        buffer tx ! 0 = 0x01 \<and> buffer tx ! 1 = 0x55 \<and> buffer tx ! 2 = v \<and>
        g_wheel_position g = prev \<and>
        (buffer tx ! 3 = 0xAA \<longrightarrow> buffer tx ! 4 = v \<or> 0x3f < buffer tx ! 4) \<longrightarrow>
        (let first = callback_default rc g tx;
             second = callback_default rc (g\<lparr>g_wheel_position := wheel_after first\<rparr>) tx
         in wheel_after first = uint v \<and>
            wheel_delta v (wheel_after first) = 0 \<and>
            written second =
              (if buffer tx ! 3 = 0xAA \<and> buffer tx ! 4 AND 0xf0 = 0xa0
               then [Button 5 (buffer tx ! 4 AND 0x02 \<noteq> 0),
                     Button 6 (buffer tx ! 4 AND 0x04 \<noteq> 0),
                     Button 7 (buffer tx ! 4 AND 0x08 \<noteq> 0)]
               else []) @ [SyncBatchEnd] \<and>
            (\<forall>e \<in> set (written second). event_type e \<noteq> EV_REL) \<and>
            wheel_after second = uint v))"
proof (intro impI conjI)
  assume h: "0 \<le> prev \<and> prev \<le> 0x3f \<and> v \<le> 0x3f"
  then have v: "v \<le> 0x3f" by simp
  have first: "report_buttons bs v prev =
      ((if wheel_delta v prev \<noteq> 0 then [RelWheel (wheel_delta v prev)] else []), uint v)" for bs
    using h by (simp add: report_buttons_wheel)
  have zero: "wheel_delta v (uint v) = 0" by (simp add: wheel_delta_def)
  show "let (ev1, w1) = report_buttons bs v prev;
          (ev2, w2) = report_buttons bs v w1
      in wheel_delta v w1 = 0 \<and> ev2 = [] \<and> w2 = uint v"
    by (simp add: first report_buttons_still [OF v] zero)
  assume t: "status tx = TRANSFER_COMPLETED \<and> user_data tx = Some ud \<and> 5 \<le> actual_length tx \<and>
        buffer tx ! 0 = 0x01 \<and> buffer tx ! 1 = 0x55 \<and> buffer tx ! 2 = v \<and>
        g_wheel_position g = prev \<and>
        (buffer tx ! 3 = 0xAA \<longrightarrow> buffer tx ! 4 = v \<or> 0x3f < buffer tx ! 4)"
  define b4 where "b4 = buffer tx ! 4"
  define right where "right =
     (if buffer tx ! 3 = 0xAA \<and> b4 AND 0xf0 = 0xa0
      then [Button 5 (b4 AND 0x02 \<noteq> 0), Button 6 (b4 AND 0x04 \<noteq> 0),
            Button 7 (b4 AND 0x08 \<noteq> 0)]
      else [])"
  have d: "decode_switch (buffer tx) (actual_length tx) w =
     (let l = report_buttons lbuttons v w;
          r = (if buffer tx ! 3 = 0xAA then report_buttons rbuttons b4 (snd l)
               else ([], snd l))
      in (fst l @ fst r, [], snd r))" for w
    using t decode_gp [of "actual_length tx" "buffer tx" w] by (simp add: b4_def Let_def)
  have r: "buffer tx ! 3 = 0xAA \<Longrightarrow> report_buttons rbuttons b4 (uint v) =
           ((if b4 AND 0xf0 = 0xa0
             then [Button 5 (b4 AND 0x02 \<noteq> 0), Button 6 (b4 AND 0x04 \<noteq> 0),
                   Button 7 (b4 AND 0x08 \<noteq> 0)]
             else []), uint v)"
    using t v by (intro right_side_no_wheel) (simp_all add: b4_def)
  have d1: "snd (snd (decode_switch (buffer tx) (actual_length tx) prev)) = uint v"
    using r by (simp add: d first Let_def)
  have d2: "decode_switch (buffer tx) (actual_length tx) (uint v) = (right, [], uint v)"
    using r by (simp add: d report_buttons_still [OF v] Let_def right_def)
  have w1: "wheel_after (callback_default rc g tx) = uint v"
    using t d1 by (simp add: callback_default_def split_def Let_def)
  have s1: "written (callback_default rc (g\<lparr>g_wheel_position := uint v\<rparr>) tx) =
              right @ [SyncBatchEnd]"
    using t by (simp add: callback_default_def split_def Let_def d2 SyncBatchEnd_def)
  have s2: "wheel_after (callback_default rc (g\<lparr>g_wheel_position := uint v\<rparr>) tx) = uint v"
    using t by (simp add: callback_default_def split_def Let_def d2)
  have s3: "\<forall>e \<in> set (right @ [SyncBatchEnd]). event_type e \<noteq> EV_REL"
    unfolding right_def by (blast dest: button_events_not_rel)
  show "let first = callback_default rc g tx;
             second = callback_default rc (g\<lparr>g_wheel_position := wheel_after first\<rparr>) tx
         in wheel_after first = uint v \<and>
            wheel_delta v (wheel_after first) = 0 \<and>
            written second =
              (if buffer tx ! 3 = 0xAA \<and> buffer tx ! 4 AND 0xf0 = 0xa0
               then [Button 5 (buffer tx ! 4 AND 0x02 \<noteq> 0),
                     Button 6 (buffer tx ! 4 AND 0x04 \<noteq> 0),
                     Button 7 (buffer tx ! 4 AND 0x08 \<noteq> 0)]
               else []) @ [SyncBatchEnd] \<and>
            (\<forall>e \<in> set (written second). event_type e \<noteq> EV_REL) \<and>
            wheel_after second = uint v"
    unfolding Let_def w1
    using s1 s2 s3 zero by (simp add: right_def b4_def)
qed

text \<open>
  From position 5 to position \<open>0x2a\<close> and again \<open>0x2a\<close>, by the wheel branch alone and
  by a whole packet, with button 6 held on the right-hand side, decoded twice.
\<close>

theorem wheel_decode_idempotent_witness:
  "(let (ev1, w1) = report_buttons lbuttons 0x2a 0x05;
        (ev2, w2) = report_buttons lbuttons 0x2a w1
    in ev1 = [RelWheel (-27)] \<and> w1 = 0x2a \<and> wheel_delta 0x2a w1 = 0 \<and> ev2 = [] \<and> w2 = 0x2a) \<and>
   (let tx = completed_transfer (uinput_of PRODUCT_ID_AM1209)
               [0x01, 0x55, 0x2a, 0xAA, 0xA4, 0, 0, 0, 0, 0] 10;
        first = callback_default 0 (idle_globals\<lparr>g_wheel_position := 0x05\<rparr>) tx;
        second = callback_default 0 (idle_globals\<lparr>g_wheel_position := wheel_after first\<rparr>) tx
    in written first =
         [RelWheel (-27), Button 5 False, Button 6 True, Button 7 False, SyncBatchEnd] \<and>
       written second = [Button 5 False, Button 6 True, Button 7 False, SyncBatchEnd] \<and>
       wheel_after second = 0x2a)"
proof -
  let ?tx = "completed_transfer (uinput_of PRODUCT_ID_AM1209)
               [0x01, 0x55, 0x2a, 0xAA, 0xA4, 0, 0, 0, 0, 0] 10"
  let ?g = "idle_globals\<lparr>g_wheel_position := 0x05\<rparr>"
  have f: "written (callback_default 0 ?g ?tx) =
             [RelWheel (-27), Button 5 False, Button 6 True, Button 7 False, SyncBatchEnd]"
    by (simp add: callback_default_def completed_transfer_def decode_gp split_def Let_def
        report_buttons_def wheel_delta_def idle_globals_def flag_def event_defs)
  have u: "?g\<lparr>g_wheel_position := w\<rparr> = idle_globals\<lparr>g_wheel_position := w\<rparr>" for w
    by simp
  have h1: "0 \<le> (0x05::int) \<and> (0x05::int) \<le> 0x3f \<and> (0x2a::u8) \<le> 0x3f" by simp
  have h2: "status ?tx = TRANSFER_COMPLETED \<and> user_data ?tx = Some (uinput_of PRODUCT_ID_AM1209) \<and>
        5 \<le> actual_length ?tx \<and>
        buffer ?tx ! 0 = 0x01 \<and> buffer ?tx ! 1 = 0x55 \<and> buffer ?tx ! 2 = 0x2a \<and>
        g_wheel_position ?g = 0x05 \<and>
        (buffer ?tx ! 3 = 0xAA \<longrightarrow> buffer ?tx ! 4 = 0x2a \<or> 0x3f < buffer ?tx ! 4)"
    by (simp add: completed_transfer_def)
  have b: "buffer ?tx ! 3 = 0xAA" "buffer ?tx ! 4 = 0xA4"
    by (simp_all add: completed_transfer_def)
  have s: "let first = callback_default 0 ?g ?tx;
               second = callback_default 0 (?g\<lparr>g_wheel_position := wheel_after first\<rparr>) ?tx
           in written second = [Button 5 False, Button 6 True, Button 7 False, SyncBatchEnd] \<and>
              wheel_after second = 0x2a"
    using wheel_decode_idempotent [where rc = 0 and bs = lbuttons, THEN mp, OF h1,
        THEN conjunct2, THEN mp, OF h2]
    unfolding Let_def b by (elim conjE) simp
  have r: "let (ev1, w1) = report_buttons lbuttons 0x2a 0x05;
        (ev2, w2) = report_buttons lbuttons 0x2a w1
    in ev1 = [RelWheel (-27)] \<and> w1 = 0x2a \<and> wheel_delta 0x2a w1 = 0 \<and> ev2 = [] \<and> w2 = 0x2a"
    using wheel_decode_idempotent [of "0x05" "0x2a" lbuttons]
    by (simp add: report_buttons_def wheel_delta_def RelWheel_def)
  from f s r show ?thesis by (simp add: Let_def u)
qed

text \<open>
  A packet that carries position 5 on the left and position \<open>0x20\<close> on the right,
  decoded twice from the initial state: the second decode writes two wheel events and leaves
  the stored position at \<open>0x20\<close>.
\<close>

theorem wheel_two_sided_counterexample:
  "(let tx = completed_transfer (uinput_of PRODUCT_ID_AM1209)
               [0x01, 0x55, 0x05, 0xAA, 0x20, 0, 0, 0, 0, 0] 10;
        first = callback_default 0 idle_globals tx;
        second = callback_default 0 (idle_globals\<lparr>g_wheel_position := wheel_after first\<rparr>) tx
    in written first = [RelWheel 5, RelWheel 27, SyncBatchEnd] \<and>
       wheel_after first = 0x20 \<and>
       written second = [RelWheel (-27), RelWheel 27, SyncBatchEnd] \<and>
       wheel_after second = 0x20)"
proof -
  let ?tx = "completed_transfer (uinput_of PRODUCT_ID_AM1209)
               [0x01, 0x55, 0x05, 0xAA, 0x20, 0, 0, 0, 0, 0] 10"
  have d: "callback_default 0 (idle_globals\<lparr>g_wheel_position := w\<rparr>) ?tx =
        \<lparr>written = fst (decode_switch (buffer ?tx) 10 w) @ [Event EV_SYN SYN_REPORT 0],
         debug = [NotResubmitting],
         wheel_after = snd (snd (decode_switch (buffer ?tx) 10 w)), resubmitted = False\<rparr>" for w
    by (simp add: callback_default_def completed_transfer_def split_def Let_def resubmit_def
        idle_globals_def decode_gp)
  have i: "idle_globals = idle_globals\<lparr>g_wheel_position := 0\<rparr>"
    by (simp add: idle_globals_def)
  have d0: "decode_switch (buffer ?tx) 10 0 = ([RelWheel 5, RelWheel 27], [], 0x20)"
    by (simp add: completed_transfer_def decode_gp Let_def report_buttons_def wheel_delta_def
        RelWheel_def)
  have d1: "decode_switch (buffer ?tx) 10 0x20 = ([RelWheel (-27), RelWheel 27], [], 0x20)"
    by (simp add: completed_transfer_def decode_gp Let_def report_buttons_def wheel_delta_def
        RelWheel_def)
  have f: "callback_default 0 idle_globals ?tx =
        \<lparr>written = [RelWheel 5, RelWheel 27, SyncBatchEnd], debug = [NotResubmitting],
         wheel_after = 0x20, resubmitted = False\<rparr>"
    by (subst i, simp only: d d0) (simp add: SyncBatchEnd_def)
  show ?thesis
    unfolding Let_def f by (simp add: d d1 SyncBatchEnd_def)
qed

text \<open>
  Claim C4.  A completed transfer of at least one byte that is shorter than its message type
  requires (fewer than 5 bytes for type \<open>0x01\<close>, fewer than 10 for \<open>0x02\<close>, fewer than
  4 for \<open>0x0C\<close>) is reported as too short, leaves the wheel position unchanged and writes
  no event other than the one synchronisation marker that ends every batch.  An empty
  transfer is reported as too short and writes nothing at all.
\<close>

theorem short_packet_outcome:
  "status tx = TRANSFER_COMPLETED \<and> user_data tx = Some ud \<longrightarrow>
     (1 \<le> actual_length tx \<and>
      (buffer tx ! 0 = 0x01 \<and> actual_length tx < 5 \<or>
       buffer tx ! 0 = 0x02 \<and> actual_length tx < 10 \<or>
       buffer tx ! 0 = 0x0C \<and> actual_length tx < 4) \<longrightarrow>
      written (callback_default rc g tx) = [SyncBatchEnd] \<and>
      TooShort (hd (debug (callback_default rc g tx))) \<and>
      debug (callback_default rc g tx) =
        (if buffer tx ! 0 = 0x01 then ButtonEventGPTooShort (actual_length tx)
         else if buffer tx ! 0 = 0x02 then PenEventTooShort (actual_length tx)
         else ButtonEvent0906TooShort (actual_length tx)) # fst (resubmit rc g) \<and>
      wheel_after (callback_default rc g tx) = g_wheel_position g)
     \<and> (actual_length tx < 1 \<longrightarrow>
      written (callback_default rc g tx) = [] \<and>
      debug (callback_default rc g tx) = EmptyPacket (actual_length tx) # fst (resubmit rc g) \<and>
      wheel_after (callback_default rc g tx) = g_wheel_position g)"
  by (auto simp add: callback_default_def decode_switch_def msg_defs split_def Let_def
      SyncBatchEnd_def)

text \<open>A compact-button packet of 3 bytes, and an empty transfer.\<close>

theorem short_packet_outcome_witness:
  "written (callback_default 0 (idle_globals\<lparr>g_wheel_position := 7\<rparr>)
      (completed_transfer (uinput_of PRODUCT_ID_GP0906) [0x0C, 0, 0, 0x0F, 0, 0, 0, 0, 0, 0] 3))
     = [SyncBatchEnd] \<and>
   debug (callback_default 0 (idle_globals\<lparr>g_wheel_position := 7\<rparr>)
      (completed_transfer (uinput_of PRODUCT_ID_GP0906) [0x0C, 0, 0, 0x0F, 0, 0, 0, 0, 0, 0] 3))
     = [ButtonEvent0906TooShort 3, NotResubmitting] \<and>
   wheel_after (callback_default 0 (idle_globals\<lparr>g_wheel_position := 7\<rparr>)
      (completed_transfer (uinput_of PRODUCT_ID_GP0906) [0x0C, 0, 0, 0x0F, 0, 0, 0, 0, 0, 0] 3))
     = 7 \<and>
   written (callback_default 0 idle_globals
      (completed_transfer (uinput_of PRODUCT_ID_GP0906) [0x02, 0, 0, 0, 0, 0, 0, 0, 0, 0] 0)) = []"
  using short_packet_outcome [of
      "completed_transfer (uinput_of PRODUCT_ID_GP0906) [0x0C, 0, 0, 0x0F, 0, 0, 0, 0, 0, 0] 3"
      "uinput_of PRODUCT_ID_GP0906" 0 "idle_globals\<lparr>g_wheel_position := 7\<rparr>"]
    short_packet_outcome [of
      "completed_transfer (uinput_of PRODUCT_ID_GP0906) [0x02, 0, 0, 0, 0, 0, 0, 0, 0, 0] 0"
      "uinput_of PRODUCT_ID_GP0906" 0 idle_globals]
  by (simp add: completed_transfer_def idle_globals_def resubmit_def)

text \<open>A pen packet cut to 4 bytes does not produce zero events.\<close>

theorem short_packet_counterexample:
  "written (callback_default 0 idle_globals
      (completed_transfer (uinput_of PRODUCT_ID_AM0806) [0x02, 0x81, 0x01, 0x02, 0, 0, 0, 0, 0, 0] 4))
   = [SyncBatchEnd] \<and>
   written (callback_default 0 idle_globals
      (completed_transfer (uinput_of PRODUCT_ID_AM0806) [0x02, 0x81, 0x01, 0x02, 0, 0, 0, 0, 0, 0] 4))
   \<noteq> []"
  by (simp add: callback_default_def completed_transfer_def decode_switch_def msg_defs
      split_def Let_def SyncBatchEnd_def)

text \<open>
  Claim C5.  A completed transfer of at least one byte whose byte 0 is none of \<open>0x01\<close>,
  \<open>0x02\<close>, \<open>0x0C\<close> is reported as an unknown message type carrying that byte, leaves the
  wheel position unchanged, writes no event other than the one synchronisation marker, and
  is resubmitted exactly when the program is running and a device handle is held, as after
  any other packet.
\<close>

theorem unknown_message_type_outcome:
  "status tx = TRANSFER_COMPLETED \<and> user_data tx = Some ud \<and> 1 \<le> actual_length tx \<and>
   buffer tx ! 0 \<noteq> 0x01 \<and> buffer tx ! 0 \<noteq> 0x02 \<and> buffer tx ! 0 \<noteq> 0x0C \<longrightarrow>
     written (callback_default rc g tx) = [SyncBatchEnd] \<and>
     debug (callback_default rc g tx) = UnknownMessageType (buffer tx ! 0) # fst (resubmit rc g) \<and>
     wheel_after (callback_default rc g tx) = g_wheel_position g \<and>
     resubmitted (callback_default rc g tx) = (g_running g \<and> g_dev_handle g \<noteq> None)"
  by (simp add: callback_default_def decode_switch_def msg_defs split_def Let_def
      SyncBatchEnd_def resubmit_snd)

text \<open>Message type \<open>0x7F\<close> while a tablet is open.\<close>

theorem unknown_message_type_witness:
  "written (callback_default 0
      (idle_globals\<lparr>g_dev_handle := Some (Handle (tablet PRODUCT_ID_AM0806))\<rparr>)
      (completed_transfer (uinput_of PRODUCT_ID_AM0806) [0x7F, 0, 0, 0, 0, 0, 0, 0, 0, 0] 10))
     = [SyncBatchEnd] \<and>
   debug (callback_default 0
      (idle_globals\<lparr>g_dev_handle := Some (Handle (tablet PRODUCT_ID_AM0806))\<rparr>)
      (completed_transfer (uinput_of PRODUCT_ID_AM0806) [0x7F, 0, 0, 0, 0, 0, 0, 0, 0, 0] 10))
     = [UnknownMessageType 0x7F] \<and>
   resubmitted (callback_default 0
      (idle_globals\<lparr>g_dev_handle := Some (Handle (tablet PRODUCT_ID_AM0806))\<rparr>)
      (completed_transfer (uinput_of PRODUCT_ID_AM0806) [0x7F, 0, 0, 0, 0, 0, 0, 0, 0, 0] 10))"
  using unknown_message_type_outcome [of
      "completed_transfer (uinput_of PRODUCT_ID_AM0806) [0x7F, 0, 0, 0, 0, 0, 0, 0, 0, 0] 10"
      "uinput_of PRODUCT_ID_AM0806" 0
      "idle_globals\<lparr>g_dev_handle := Some (Handle (tablet PRODUCT_ID_AM0806))\<rparr>"]
  by (simp add: completed_transfer_def idle_globals_def resubmit_def)

text \<open>Message type \<open>0x03\<close> does not produce zero events.\<close>

theorem unknown_message_type_counterexample:
  "written (callback_default 0 idle_globals
      (completed_transfer (uinput_of PRODUCT_ID_AM0806) [0x03, 0, 0, 0, 0, 0, 0, 0, 0, 0] 10))
   = [SyncBatchEnd] \<and>
   written (callback_default 0 idle_globals
      (completed_transfer (uinput_of PRODUCT_ID_AM0806) [0x03, 0, 0, 0, 0, 0, 0, 0, 0, 0] 10))
   \<noteq> []"
  by (simp add: callback_default_def completed_transfer_def decode_switch_def msg_defs
      split_def Let_def SyncBatchEnd_def)

section \<open>Compact button packets\<close>

text \<open>
  Claim C9.  A completed transfer of at least 4 bytes whose byte 0 is \<open>0x0C\<close> writes the
  button events for indices 0 to 3 from the bits \<open>0x01\<close>, \<open>0x02\<close>, \<open>0x04\<close>, \<open>0x08\<close>
  of byte 3 and then the synchronisation marker.  The bits \<open>0x10\<close> to \<open>0x80\<close> of byte 3
  produce no event and change none, whatever the product the uinput device was created for:
  clearing them leaves the written events the same.
\<close>

theorem compact_button_events:
  "status tx = TRANSFER_COMPLETED \<and> user_data tx = Some ud \<and> 4 \<le> actual_length tx \<and>
   length (buffer tx) = 10 \<and> buffer tx ! 0 = 0x0C \<longrightarrow>
     written (callback_default rc g tx) =
       [Button 0 (buffer tx ! 3 AND 0x01 \<noteq> 0), Button 1 (buffer tx ! 3 AND 0x02 \<noteq> 0),
        Button 2 (buffer tx ! 3 AND 0x04 \<noteq> 0), Button 3 (buffer tx ! 3 AND 0x08 \<noteq> 0),
        SyncBatchEnd] \<and>
     written (callback_default rc g (tx\<lparr>buffer := (buffer tx)[3 := buffer tx ! 3 AND 0x0f]\<rparr>)) =
       written (callback_default rc g tx)"
  by (simp add: callback_default_def decode_0906 split_def Let_def SyncBatchEnd_def
      low_nibble_bits)

text \<open>Byte 3 = \<open>0xA5\<close> on a Graphicpal 0906: buttons 0 and 2 pressed.\<close>

theorem compact_button_events_witness:
  "written (callback_default 0 idle_globals
      (completed_transfer (uinput_of PRODUCT_ID_GP0906) [0x0C, 0, 0, 0xA5, 0, 0, 0, 0, 0, 0] 4))
   = [Button 0 True, Button 1 False, Button 2 True, Button 3 False, SyncBatchEnd]"
  using compact_button_events [of
      "completed_transfer (uinput_of PRODUCT_ID_GP0906) [0x0C, 0, 0, 0xA5, 0, 0, 0, 0, 0, 0] 4"
      "uinput_of PRODUCT_ID_GP0906" 0 idle_globals]
  by (simp add: completed_transfer_def)

text \<open>
  On the APPIV0906, whose button set is the mixed one, byte 3 = \<open>0xF0\<close> yields the four
  released buttons and the marker, and nothing for the four upper bits.
\<close>

theorem compact_button_appiv_counterexample:
  "buttons (profile_of (build_evdev (dev_desc (tablet PRODUCT_ID_APPIV0906)))) = NineMixed \<and>
   written (callback_default 0 idle_globals
      (completed_transfer (uinput_of PRODUCT_ID_APPIV0906) [0x0C, 0, 0, 0xF0, 0, 0, 0, 0, 0, 0] 10))
   = [Button 0 False, Button 1 False, Button 2 False, Button 3 False, SyncBatchEnd]"
  by (simp add: profile_of_def build_evdev_def tablet_def buttonSet_APPIV
      callback_default_def completed_transfer_def decode_0906 split_def Let_def SyncBatchEnd_def)

section \<open>The synchronisation marker\<close>

text \<open>
  Claim C10.  For a completed transfer with a uinput handle and at least one byte received,
  the callback writes exactly one \<open>SYN_REPORT\<close>, as the last event, whatever the message
  type and whether or not the length check of the type passed.  With no byte received, or
  with a null uinput handle, it writes nothing.
\<close>

theorem sync_marker_exactly_once:
  "status tx = TRANSFER_COMPLETED \<longrightarrow>
     (if user_data tx \<noteq> None \<and> 1 \<le> actual_length tx
      then (\<exists>evs. written (callback_default rc g tx) = evs @ [SyncBatchEnd] \<and>
                  (\<forall>e \<in> set evs. event_type e \<noteq> EV_SYN)) \<and>
           count_list (written (callback_default rc g tx)) SyncBatchEnd = 1
      else written (callback_default rc g tx) = [])"
proof
  assume c: "status tx = TRANSFER_COMPLETED"
  show "if user_data tx \<noteq> None \<and> 1 \<le> actual_length tx
      then (\<exists>evs. written (callback_default rc g tx) = evs @ [SyncBatchEnd] \<and>
                  (\<forall>e \<in> set evs. event_type e \<noteq> EV_SYN)) \<and>
           count_list (written (callback_default rc g tx)) SyncBatchEnd = 1
      else written (callback_default rc g tx) = []"
  proof (cases "user_data tx \<noteq> None \<and> 1 \<le> actual_length tx")
    case True
    define evs where "evs = fst (decode_switch (buffer tx) (actual_length tx) (g_wheel_position g))"
    have w: "written (callback_default rc g tx) = evs @ [SyncBatchEnd]"
      using c True by (simp add: callback_default_def split_def Let_def evs_def SyncBatchEnd_def)
    have ns: "\<forall>e \<in> set evs. event_type e \<noteq> EV_SYN"
      unfolding evs_def by (blast dest: decode_switch_no_syn)
    then have "SyncBatchEnd \<notin> set evs" by (auto simp: SyncBatchEnd_def)
    then have "count_list evs SyncBatchEnd = 0" by (simp add: count_list_0_iff)
    with w ns True show ?thesis by simp
  next
    case False
    with c show ?thesis by (auto simp add: callback_default_def split_def Let_def)
  qed
qed

text \<open>One byte of an unknown type gives the marker; no byte gives nothing.\<close>

theorem sync_marker_exactly_once_witness:
  "count_list (written (callback_default 0 idle_globals
      (completed_transfer (uinput_of PRODUCT_ID_AM0806) [0x44, 0, 0, 0, 0, 0, 0, 0, 0, 0] 1)))
      SyncBatchEnd = 1 \<and>
   written (callback_default 0 idle_globals
      (completed_transfer (uinput_of PRODUCT_ID_AM0806) [0x44, 0, 0, 0, 0, 0, 0, 0, 0, 0] 0)) = []"
  using sync_marker_exactly_once [of
      "completed_transfer (uinput_of PRODUCT_ID_AM0806) [0x44, 0, 0, 0, 0, 0, 0, 0, 0, 0] 1"
      0 idle_globals]
    sync_marker_exactly_once [of
      "completed_transfer (uinput_of PRODUCT_ID_AM0806) [0x44, 0, 0, 0, 0, 0, 0, 0, 0, 0] 0"
      0 idle_globals]
  by (simp add: completed_transfer_def)

section \<open>Device profiles\<close>

text \<open>
  Claim C6.  The profile lookup is a function of the vendor and product id alone: it yields
  a profile exactly for the Hanvon vendor id \<open>0x0b57\<close> with one of the 15 known product
  ids, which are pairwise distinct; each of them has its own profile (carrying that product
  id, its name and its button set), and every other vendor or product id has none.  This is
  the test \<^verbatim>\<open>find_device\<close> makes on a device whose descriptor can be read.
\<close>

theorem lookup_total_deterministic:
  "(lookup v p \<noteq> None \<longleftrightarrow> v = VENDOR_ID_HANVON \<and> p \<in> set known_products) \<and>
   distinct known_products \<and> length known_products = 15 \<and>
   (\<forall>q \<in> set known_products.
      \<exists>prof. lookup VENDOR_ID_HANVON q = Some prof \<and> vendorId prof = VENDOR_ID_HANVON \<and>
             productId prof = q \<and> displayName prof = device_name q \<and>
             buttons prof = buttonSet q) \<and>
   (v \<noteq> VENDOR_ID_HANVON \<or> p \<notin> set known_products \<longrightarrow> lookup v p = None) \<and>
   (0 \<le> find_device rc (Some [Some d]) 1 \<longleftrightarrow>
      \<not> rc d < 0 \<and> idVendor (dev_desc d) = VENDOR_ID_HANVON \<and>
      idProduct (dev_desc d) \<in> set known_products)"
proof (intro conjI ballI)
  show "0 \<le> find_device rc (Some [Some d]) 1 \<longleftrightarrow>
      \<not> rc d < 0 \<and> idVendor (dev_desc d) = VENDOR_ID_HANVON \<and>
      idProduct (dev_desc d) \<in> set known_products"
    by (simp add: find_single supported_iff)
  show "lookup v p \<noteq> None \<longleftrightarrow> v = VENDOR_ID_HANVON \<and> p \<in> set known_products"
    by (simp add: lookup_eq)
  show "distinct known_products" "length known_products = 15"
    using known_distinct by simp_all
  show "v \<noteq> VENDOR_ID_HANVON \<or> p \<notin> set known_products \<longrightarrow> lookup v p = None"
    by (auto simp add: lookup_eq)
next
  fix q assume "q \<in> set known_products"
  then show "\<exists>prof. lookup VENDOR_ID_HANVON q = Some prof \<and> vendorId prof = VENDOR_ID_HANVON \<and>
             productId prof = q \<and> displayName prof = device_name q \<and>
             buttons prof = buttonSet q"
    by (simp add: lookup_eq profile_of_def build_evdev_def)
qed

text \<open>The APPIV0906, an unknown Hanvon product id, and another vendor's id.\<close>

theorem lookup_witness:
  "lookup VENDOR_ID_HANVON PRODUCT_ID_APPIV0906 =
     Some \<lparr>vendorId = 0x0b57, productId = 0x8532,
           displayName = ''Hanvon Art Painter Pro APPIV0906'',
           maxX = 0x5750, maxY = 0x3692, maxPressure = 0x400, maxTiltX = 0x3F, maxTiltY = 0x7F,
           buttons = NineMixed, hasWheel = True\<rparr> \<and>
   lookup VENDOR_ID_HANVON 0x8500 = None \<and>
   lookup 0x056a PRODUCT_ID_APPIV0906 = None"
proof -
  have known: "PRODUCT_ID_APPIV0906 \<in> set known_products"
    by (simp add: known_products_def)
  have unknown: "0x8500 \<notin> set known_products"
    by (simp add: known_products_def product_id_defs)
  have other: "(0x056a::u16) \<noteq> VENDOR_ID_HANVON"
    by (simp add: VENDOR_ID_HANVON_def)
  from known obtain prof where
    p: "lookup VENDOR_ID_HANVON PRODUCT_ID_APPIV0906 = Some prof"
    using lookup_total_deterministic [of VENDOR_ID_HANVON PRODUCT_ID_APPIV0906] by blast
  have "prof = \<lparr>vendorId = 0x0b57, productId = 0x8532,
           displayName = ''Hanvon Art Painter Pro APPIV0906'',
           maxX = 0x5750, maxY = 0x3692, maxPressure = 0x400, maxTiltX = 0x3F, maxTiltY = 0x7F,
           buttons = NineMixed, hasWheel = True\<rparr>"
    using p known
    by (simp add: lookup_eq profile_of_def build_evdev_def
      abs_max_of_def abs_x_maximum_def abs_y_maximum_def device_name_def
      buttonSet_APPIV [unfolded PRODUCT_ID_APPIV0906_def]
      VENDOR_ID_HANVON_def product_id_defs APPIV_MAX_ABS_X_def APPIV_MAX_ABS_Y_def
      AM_MAX_PRESSURE_def AM_MAX_TILT_X_def AM_MAX_TILT_Y_def)
  moreover have "lookup VENDOR_ID_HANVON 0x8500 = None"
    using unknown lookup_total_deterministic [of VENDOR_ID_HANVON "0x8500"] by blast
  moreover have "lookup 0x056a PRODUCT_ID_APPIV0906 = None"
    using other lookup_total_deterministic [of "0x056a" PRODUCT_ID_APPIV0906] by blast
  ultimately show ?thesis using p by simp
qed

section \<open>The single session\<close>

text \<open>
  Claim C7.  An arrival while a device handle is held changes no global and makes no
  library call that acquires or releases a resource; a departure of a device other than the
  one behind the held handle (or with no handle held) changes nothing either.  In both cases
  the callback returns 0.
\<close>

theorem single_session_invariant:
  "(g_dev_handle g \<noteq> None \<longrightarrow> hotplug_callback e dev DEVICE_ARRIVED g = (g, [], 0)) \<and>
   ((case g_dev_handle g of None \<Rightarrow> True | Some h \<Rightarrow> libusb_get_device h \<noteq> dev) \<longrightarrow>
      hotplug_callback e dev DEVICE_LEFT g = (g, [], 0))"
  by (auto simp add: hotplug_callback_def arrival_def departure_def split: option.splits)

text \<open>
  A Graphicpal 0504 arrives and leaves while an ArtMaster AM1209 is the active device, and
  leaves while no device is active.
\<close>

theorem single_session_invariant_witness:
  "hotplug_callback all_succeed (tablet PRODUCT_ID_GP0504) DEVICE_ARRIVED
      (active_globals PRODUCT_ID_AM1209) = (active_globals PRODUCT_ID_AM1209, [], 0) \<and>
   hotplug_callback all_succeed (tablet PRODUCT_ID_GP0504) DEVICE_LEFT
      (active_globals PRODUCT_ID_AM1209) = (active_globals PRODUCT_ID_AM1209, [], 0) \<and>
   hotplug_callback all_succeed (tablet PRODUCT_ID_GP0504) DEVICE_LEFT idle_globals =
      (idle_globals, [], 0)"
proof -
  have a: "g_dev_handle (active_globals PRODUCT_ID_AM1209) =
             Some (Handle (tablet PRODUCT_ID_AM1209))"
    by (simp add: active_globals_def)
  have d: "tablet PRODUCT_ID_AM1209 \<noteq> tablet PRODUCT_ID_GP0504"
    by (simp add: tablet_def product_id_defs)
  have i: "g_dev_handle idle_globals = None" by (simp add: idle_globals_def)
  show ?thesis
    using single_session_invariant [of "active_globals PRODUCT_ID_AM1209" all_succeed
            "tablet PRODUCT_ID_GP0504"]
          single_session_invariant [of idle_globals all_succeed "tablet PRODUCT_ID_GP0504"]
    by (simp add: a d i)
qed

section \<open>Failure during an arrival\<close>




end
